theory Spec2Isabelle
  imports Main "HOL-Library.Word" "HOL-Library.Sublist"
begin

section \<open>The JavaScript values the adapter handles\<close>

text \<open>
  The source is TypeScript; its strings are sequences of UTF-16 code units, so a string
  is a list of 16-bit words.  \<open>str\<close> embeds an ASCII literal of the source.
\<close>

type_synonym jsstring = "16 word list"

definition str :: "string \<Rightarrow> jsstring" where
  "str s = map of_char s"

text \<open>
  Everything the source throws or catches is an \<open>Error\<close> object with a message:
  \<open>new Error(...)\<close> in \<open>request\<close>, the \<open>SyntaxError\<close> of \<open>JSON.parse\<close> and of
  \<open>Response.json()\<close>, the \<open>TypeError\<close> of a failed \<open>fetch\<close> or body read.
\<close>

datatype error =
    Error (message: jsstring)
  | SyntaxError (message: jsstring)
  | TypeError (message: jsstring)

text \<open>
  A Number is only ever parsed and printed by this program, never computed with.  A finite
  non-zero Number is kept as the triple of ECMAScript's \<open>Number::toString\<close>: its sign, its
  decimal digits \<open>s\<close> (no leading and no trailing zero) and the exponent \<open>n\<close>, the value
  being \<open>0.s * 10^n\<close>.  Rounding to 53 bits is not modelled (a literal keeps all its
  digits), overflow to Infinity is; \<open>-0\<close> is not kept apart from \<open>0\<close> (both print as
  \<open>0\<close>) and NaN is left out (neither JSON.parse nor a validated argument yields it).
\<close>

datatype number =
    Zero
  | Finite bool "nat list" int
  | Infinity bool

datatype json =
    JNull
  | JBool bool
  | JNumber number
  | JString jsstring
  | JArray "json list"
  | JObject "(jsstring \<times> json) list"

subsection \<open>Decimal digits\<close>

definition digit_unit :: "nat \<Rightarrow> 16 word" where
  "digit_unit d = of_nat (48 + d)"

definition is_digit :: "16 word \<Rightarrow> bool" where
  "is_digit u = (0x30 \<le> u \<and> u \<le> 0x39)"

definition digit_val :: "16 word \<Rightarrow> nat" where
  "digit_val u = unat u - 48"

definition digs :: "nat list \<Rightarrow> jsstring" where
  "digs ds = map digit_unit ds"

fun dec :: "nat \<Rightarrow> jsstring" where
  "dec n = (if n < 10 then [digit_unit n] else dec (n div 10) @ [digit_unit (n mod 10)])"

definition nat_of_digits :: "nat list \<Rightarrow> nat" where
  "nat_of_digits ds = foldl (\<lambda>a d. 10 * a + d) 0 ds"

subsection \<open>Number::toString and String(number)\<close>

definition finite_toString :: "nat list \<Rightarrow> int \<Rightarrow> jsstring" where
  "finite_toString ds n =
     (let k = int (length ds) in
      if k \<le> n \<and> n \<le> 21 then digs ds @ replicate (nat (n - k)) 0x30
      else if 0 < n \<and> n \<le> 21 then digs (take (nat n) ds) @ [0x2E] @ digs (drop (nat n) ds)
      else if - 6 < n \<and> n \<le> 0 then [0x30, 0x2E] @ replicate (nat (- n)) 0x30 @ digs ds
      else (if k = 1 then digs ds else digs [hd ds] @ [0x2E] @ digs (tl ds))
        @ [0x65] @ (if n - 1 < 0 then [0x2D] else [0x2B]) @ dec (nat \<bar>n - 1\<bar>))"

fun Number_toString :: "number \<Rightarrow> jsstring" where
  "Number_toString Zero = [0x30]"
| "Number_toString (Finite neg ds n) = (if neg then [0x2D] else []) @ finite_toString ds n"
| "Number_toString (Infinity neg) = (if neg then [0x2D] else []) @ str ''Infinity''"

fun is_finite :: "number \<Rightarrow> bool" where
  "is_finite (Infinity neg) = False"
| "is_finite x = True"

subsection \<open>JSON.stringify\<close>

definition hex_unit :: "nat \<Rightarrow> 16 word" where
  "hex_unit h = (if h < 10 then of_nat (48 + h) else of_nat (87 + h))"

definition unicode_escape :: "16 word \<Rightarrow> jsstring" where
  "unicode_escape u =
     [0x5C, 0x75] @ map hex_unit
       [unat u div 4096 mod 16, unat u div 256 mod 16, unat u div 16 mod 16, unat u mod 16]"

definition is_lead :: "16 word \<Rightarrow> bool" where
  "is_lead u = (0xD800 \<le> u \<and> u \<le> 0xDBFF)"

definition is_trail :: "16 word \<Rightarrow> bool" where
  "is_trail u = (0xDC00 \<le> u \<and> u \<le> 0xDFFF)"

definition quote_unit :: "16 word \<Rightarrow> jsstring" where
  "quote_unit u =
     (if u = 0x08 then [0x5C, 0x62]
      else if u = 0x09 then [0x5C, 0x74]
      else if u = 0x0A then [0x5C, 0x6E]
      else if u = 0x0C then [0x5C, 0x66]
      else if u = 0x0D then [0x5C, 0x72]
      else if u = 0x22 then [0x5C, 0x22]
      else if u = 0x5C then [0x5C, 0x5C]
      else if u < 0x20 \<or> is_lead u \<or> is_trail u then unicode_escape u
      else [u])"

fun quote_units :: "jsstring \<Rightarrow> jsstring" where
  "quote_units [] = []"
| "quote_units [u] = quote_unit u"
| "quote_units (u # v # r) =
     (if is_lead u \<and> is_trail v then u # v # quote_units r
      else quote_unit u @ quote_units (v # r))"

definition QuoteJSONString :: "jsstring \<Rightarrow> jsstring" where
  "QuoteJSONString s = [0x22] @ quote_units s @ [0x22]"

definition newline_indent :: "jsstring \<Rightarrow> jsstring \<Rightarrow> jsstring" where
  "newline_indent gap ind = (if gap = [] then [] else [0x0A] @ ind)"

fun serialize :: "jsstring \<Rightarrow> jsstring \<Rightarrow> json \<Rightarrow> jsstring"
  and serialize_elements :: "jsstring \<Rightarrow> jsstring \<Rightarrow> json list \<Rightarrow> jsstring"
  and serialize_members :: "jsstring \<Rightarrow> jsstring \<Rightarrow> (jsstring \<times> json) list \<Rightarrow> jsstring"
where
  "serialize gap ind JNull = str ''null''"
| "serialize gap ind (JBool b) = (if b then str ''true'' else str ''false'')"
| "serialize gap ind (JNumber x) = (if is_finite x then Number_toString x else str ''null'')"
| "serialize gap ind (JString s) = QuoteJSONString s"
| "serialize gap ind (JArray vs) =
     (if vs = [] then [0x5B, 0x5D]
      else [0x5B] @ newline_indent gap (ind @ gap) @ serialize_elements gap (ind @ gap) vs
        @ newline_indent gap ind @ [0x5D])"
| "serialize gap ind (JObject kvs) =
     (if kvs = [] then [0x7B, 0x7D]
      else [0x7B] @ newline_indent gap (ind @ gap) @ serialize_members gap (ind @ gap) kvs
        @ newline_indent gap ind @ [0x7D])"
| "serialize_elements gap ind [] = []"
| "serialize_elements gap ind (v # vs) =
     serialize gap ind v
       @ (if vs = [] then [] else [0x2C] @ newline_indent gap ind @ serialize_elements gap ind vs)"
| "serialize_members gap ind [] = []"
| "serialize_members gap ind (kv # kvs) =
     QuoteJSONString (fst kv) @ [0x3A] @ (if gap = [] then [] else [0x20])
       @ serialize gap ind (snd kv)
       @ (if kvs = [] then [] else [0x2C] @ newline_indent gap ind @ serialize_members gap ind kvs)"

definition JSON_stringify :: "json \<Rightarrow> nat \<Rightarrow> jsstring" where
  "JSON_stringify v space = serialize (replicate (min 10 space) 0x20) [] v"

subsection \<open>JSON.parse\<close>

text \<open>
  The numeric token of the JSON grammar, \<open>-? (0 | [1-9][0-9]*) (. [0-9]+)? ([eE] [+-]? [0-9]+)?\<close>,
  and the Number it denotes.  A value of at least \<open>2^1024 - 2^970\<close> (halfway between the
  largest double and \<open>2^1024\<close>) becomes Infinity.
\<close>

definition overflows :: "nat list \<Rightarrow> int \<Rightarrow> bool" where
  "overflows ds n =
     (309 < n \<or> (n = 309 \<and> 2 ^ 1024 - 2 ^ 970 \<le> nat_of_digits (take 309 (ds @ replicate 309 0))))"

definition make_number :: "bool \<Rightarrow> nat list \<Rightarrow> nat list \<Rightarrow> int \<Rightarrow> number" where
  "make_number neg ip fp x =
     (let z = length (takeWhile (\<lambda>d. d = 0) (ip @ fp));
          ds = rev (dropWhile (\<lambda>d. d = 0) (rev (dropWhile (\<lambda>d. d = 0) (ip @ fp))));
          n = int (length ip) + x - int z
      in if ds = [] then Zero
         else if overflows ds n then Infinity neg
         else Finite neg ds n)"

definition take_digits :: "jsstring \<Rightarrow> nat list \<times> jsstring" where
  "take_digits s = (map digit_val (takeWhile is_digit s), dropWhile is_digit s)"

definition parse_fraction :: "jsstring \<Rightarrow> (nat list \<times> jsstring) option" where
  "parse_fraction s =
     (case s of
        [] \<Rightarrow> Some ([], s)
      | u # r \<Rightarrow>
          if u = 0x2E
          then (case take_digits r of (fp, r') \<Rightarrow> if fp = [] then None else Some (fp, r'))
          else Some ([], s))"

definition parse_sign :: "jsstring \<Rightarrow> bool \<times> jsstring" where
  "parse_sign s =
     (case s of
        [] \<Rightarrow> (False, s)
      | u # r \<Rightarrow> if u = 0x2D then (True, r) else if u = 0x2B then (False, r) else (False, s))"

definition parse_exponent :: "jsstring \<Rightarrow> (int \<times> jsstring) option" where
  "parse_exponent s =
     (case s of
        [] \<Rightarrow> Some (0, s)
      | u # r \<Rightarrow>
          if u = 0x65 \<or> u = 0x45
          then (case parse_sign r of (neg, r') \<Rightarrow>
                 (case take_digits r' of (xs, r'') \<Rightarrow>
                    if xs = [] then None
                    else Some (if neg then - int (nat_of_digits xs) else int (nat_of_digits xs), r'')))
          else Some (0, s))"

definition parse_number :: "jsstring \<Rightarrow> (number \<times> jsstring) option" where
  "parse_number s =
     (case (case s of [] \<Rightarrow> (False, s) | u # r \<Rightarrow> if u = 0x2D then (True, r) else (False, s)) of
        (neg, s1) \<Rightarrow>
          (case take_digits s1 of (ip, s2) \<Rightarrow>
             if ip = [] \<or> (hd ip = 0 \<and> tl ip \<noteq> []) then None
             else (case parse_fraction s2 of
                     None \<Rightarrow> None
                   | Some (fp, s3) \<Rightarrow>
                       (case parse_exponent s3 of
                          None \<Rightarrow> None
                        | Some (x, s4) \<Rightarrow> Some (make_number neg ip fp x, s4)))))"

text \<open>The characters of a JSON string, up to and including the closing quote.\<close>

definition hex_val :: "16 word \<Rightarrow> nat option" where
  "hex_val u =
     (if 0x30 \<le> u \<and> u \<le> 0x39 then Some (unat u - 48)
      else if 0x61 \<le> u \<and> u \<le> 0x66 then Some (unat u - 87)
      else if 0x41 \<le> u \<and> u \<le> 0x46 then Some (unat u - 55)
      else None)"

definition hex4 :: "16 word \<Rightarrow> 16 word \<Rightarrow> 16 word \<Rightarrow> 16 word \<Rightarrow> 16 word option" where
  "hex4 a b c d =
     (case (hex_val a, hex_val b, hex_val c, hex_val d) of
        (Some h3, Some h2, Some h1, Some h0) \<Rightarrow> Some (of_nat (((h3 * 16 + h2) * 16 + h1) * 16 + h0))
      | _ \<Rightarrow> None)"

definition unescape :: "16 word \<Rightarrow> 16 word option" where
  "unescape e =
     (if e = 0x22 then Some 0x22
      else if e = 0x5C then Some 0x5C
      else if e = 0x2F then Some 0x2F
      else if e = 0x62 then Some 0x08
      else if e = 0x66 then Some 0x0C
      else if e = 0x6E then Some 0x0A
      else if e = 0x72 then Some 0x0D
      else if e = 0x74 then Some 0x09
      else None)"

definition cons_result :: "16 word \<Rightarrow> (jsstring \<times> jsstring) option \<Rightarrow> (jsstring \<times> jsstring) option" where
  "cons_result c res = (case res of None \<Rightarrow> None | Some (t, r) \<Rightarrow> Some (c # t, r))"

fun parse_string :: "jsstring \<Rightarrow> (jsstring \<times> jsstring) option" where
  "parse_string [] = None"
| "parse_string (u # r) =
     (if u = 0x22 then Some ([], r)
      else if u = 0x5C then
        (case r of
           [] \<Rightarrow> None
         | e # r1 \<Rightarrow>
             if e = 0x75 then
               (case r1 of
                  a # b # c # d # r2 \<Rightarrow>
                    (case hex4 a b c d of
                       None \<Rightarrow> None
                     | Some h \<Rightarrow> cons_result h (parse_string r2))
                | _ \<Rightarrow> None)
             else (case unescape e of
                     None \<Rightarrow> None
                   | Some c \<Rightarrow> cons_result c (parse_string r1)))
      else if u < 0x20 then None
      else cons_result u (parse_string r))"

text \<open>
  Own property keys of an object come in ECMAScript's order: array indices (canonical
  decimal numerals below \<open>2^32 - 1\<close>) ascending, then the other keys in the order of their
  creation.  \<open>obj_set\<close> is \<open>CreateDataProperty\<close> on such an object.
\<close>

definition array_index :: "jsstring \<Rightarrow> nat option" where
  "array_index k =
     (if k \<noteq> [] \<and> list_all is_digit k \<and> (k = [0x30] \<or> hd k \<noteq> 0x30)
         \<and> nat_of_digits (map digit_val k) < 2 ^ 32 - 1
      then Some (nat_of_digits (map digit_val k)) else None)"

fun obj_insert :: "nat \<Rightarrow> jsstring \<Rightarrow> json \<Rightarrow> (jsstring \<times> json) list \<Rightarrow> (jsstring \<times> json) list" where
  "obj_insert i k v [] = [(k, v)]"
| "obj_insert i k v (kv # kvs) =
     (case array_index (fst kv) of
        None \<Rightarrow> (k, v) # kv # kvs
      | Some j \<Rightarrow> if j < i then kv # obj_insert i k v kvs else (k, v) # kv # kvs)"

definition obj_set :: "jsstring \<Rightarrow> json \<Rightarrow> (jsstring \<times> json) list \<Rightarrow> (jsstring \<times> json) list" where
  "obj_set k v kvs =
     (if k \<in> set (map fst kvs) then map (\<lambda>kv. if fst kv = k then (k, v) else kv) kvs
      else (case array_index k of
              None \<Rightarrow> kvs @ [(k, v)]
            | Some i \<Rightarrow> obj_insert i k v kvs))"

definition is_ws :: "16 word \<Rightarrow> bool" where
  "is_ws u = (u = 0x20 \<or> u = 0x09 \<or> u = 0x0A \<or> u = 0x0D)"

definition skip_ws :: "jsstring \<Rightarrow> jsstring" where
  "skip_ws s = dropWhile is_ws s"

text \<open>
  The recursive descent over values.  The first argument bounds the depth of the calls;
  \<open>JSON_parse\<close> starts with more than a text of that length can use.
\<close>

fun parse_value :: "nat \<Rightarrow> jsstring \<Rightarrow> (json \<times> jsstring) option"
  and parse_elements :: "nat \<Rightarrow> json list \<Rightarrow> jsstring \<Rightarrow> (json \<times> jsstring) option"
  and parse_members :: "nat \<Rightarrow> (jsstring \<times> json) list \<Rightarrow> jsstring \<Rightarrow> (json \<times> jsstring) option"
where
  "parse_value 0 s = None"
| "parse_value (Suc n) s =
     (case skip_ws s of
        [] \<Rightarrow> None
      | u # r \<Rightarrow>
          if u = 0x7B then
            (case skip_ws r of
               [] \<Rightarrow> None
             | c # r' \<Rightarrow> if c = 0x7D then Some (JObject [], r') else parse_members n [] (c # r'))
          else if u = 0x5B then
            (case skip_ws r of
               [] \<Rightarrow> None
             | c # r' \<Rightarrow> if c = 0x5D then Some (JArray [], r') else parse_elements n [] (c # r'))
          else if u = 0x22 then
            (case parse_string r of None \<Rightarrow> None | Some (t, r') \<Rightarrow> Some (JString t, r'))
          else if prefix (str ''true'') (u # r) then Some (JBool True, drop 4 (u # r))
          else if prefix (str ''false'') (u # r) then Some (JBool False, drop 5 (u # r))
          else if prefix (str ''null'') (u # r) then Some (JNull, drop 4 (u # r))
          else (case parse_number (u # r) of None \<Rightarrow> None | Some (x, r') \<Rightarrow> Some (JNumber x, r')))"
| "parse_elements 0 acc s = None"
| "parse_elements (Suc n) acc s =
     (case parse_value n s of
        None \<Rightarrow> None
      | Some (v, r) \<Rightarrow>
          (case skip_ws r of
             [] \<Rightarrow> None
           | c # r' \<Rightarrow>
               if c = 0x2C then parse_elements n (acc @ [v]) r'
               else if c = 0x5D then Some (JArray (acc @ [v]), r')
               else None))"
| "parse_members 0 acc s = None"
| "parse_members (Suc n) acc s =
     (case skip_ws s of
        [] \<Rightarrow> None
      | q # r \<Rightarrow>
          if q \<noteq> 0x22 then None
          else (case parse_string r of
                  None \<Rightarrow> None
                | Some (k, r1) \<Rightarrow>
                    (case skip_ws r1 of
                       [] \<Rightarrow> None
                     | c # r2 \<Rightarrow>
                         if c \<noteq> 0x3A then None
                         else (case parse_value n r2 of
                                 None \<Rightarrow> None
                               | Some (v, r3) \<Rightarrow>
                                   (case skip_ws r3 of
                                      [] \<Rightarrow> None
                                    | d # r4 \<Rightarrow>
                                        if d = 0x2C then parse_members n (obj_set k v acc) r4
                                        else if d = 0x7D then Some (JObject (obj_set k v acc), r4)
                                        else None)))))"

text \<open>The wording of the SyntaxError is the engine's; the model fixes one.\<close>

definition syntax_error :: error where
  "syntax_error = SyntaxError (str ''Unexpected token in JSON'')"

definition JSON_parse :: "jsstring \<Rightarrow> error + json" where
  "JSON_parse s =
     (case parse_value (2 * length s + 2) s of
        None \<Rightarrow> Inl syntax_error
      | Some (v, r) \<Rightarrow> if skip_ws r = [] then Inr v else Inl syntax_error)"

subsection \<open>Well-formed values\<close>








section \<open>URLSearchParams\<close>

text \<open>
  \<open>URLSearchParams\<close> is a list of name-value pairs; \<open>toString\<close> is the
  application/x-www-form-urlencoded serializer: the string is made a sequence of scalar
  values (a lone surrogate becomes U+FFFD), encoded in UTF-8, and every byte outside
  \<open>* - . _ 0-9 A-Z a-z\<close> is percent-encoded, a space becoming \<open>+\<close>.
\<close>

fun code_points :: "jsstring \<Rightarrow> nat list" where
  "code_points [] = []"
| "code_points [u] = [if is_lead u \<or> is_trail u then 0xFFFD else unat u]"
| "code_points (u # v # r) =
     (if is_lead u \<and> is_trail v
      then (0x10000 + (unat u - 0xD800) * 0x400 + (unat v - 0xDC00)) # code_points r
      else (if is_lead u \<or> is_trail u then 0xFFFD else unat u) # code_points (v # r))"

definition utf8_encode :: "nat \<Rightarrow> nat list" where
  "utf8_encode c =
     (if c < 0x80 then [c]
      else if c < 0x800 then [0xC0 + c div 64, 0x80 + c mod 64]
      else if c < 0x10000 then [0xE0 + c div 4096, 0x80 + c div 64 mod 64, 0x80 + c mod 64]
      else [0xF0 + c div 262144, 0x80 + c div 4096 mod 64, 0x80 + c div 64 mod 64, 0x80 + c mod 64])"

definition upper_hex_unit :: "nat \<Rightarrow> 16 word" where
  "upper_hex_unit h = (if h < 10 then of_nat (48 + h) else of_nat (55 + h))"

definition urlencode_byte :: "nat \<Rightarrow> jsstring" where
  "urlencode_byte b =
     (if b = 0x20 then [0x2B]
      else if b = 0x2A \<or> b = 0x2D \<or> b = 0x2E \<or> b = 0x5F
              \<or> (0x30 \<le> b \<and> b \<le> 0x39) \<or> (0x41 \<le> b \<and> b \<le> 0x5A) \<or> (0x61 \<le> b \<and> b \<le> 0x7A)
      then [of_nat b]
      else [0x25, upper_hex_unit (b div 16), upper_hex_unit (b mod 16)])"

definition urlencode :: "jsstring \<Rightarrow> jsstring" where
  "urlencode s = concat (map urlencode_byte (concat (map utf8_encode (code_points s))))"

type_synonym URLSearchParams = "(jsstring \<times> jsstring) list"

fun set_first :: "jsstring \<Rightarrow> jsstring \<Rightarrow> URLSearchParams \<Rightarrow> URLSearchParams" where
  "set_first name v [] = []"
| "set_first name v (p # ps) =
     (if fst p = name then (name, v) # filter (\<lambda>q. fst q \<noteq> name) ps
      else p # set_first name v ps)"

definition params_set :: "jsstring \<Rightarrow> jsstring \<Rightarrow> URLSearchParams \<Rightarrow> URLSearchParams" where
  "params_set name v ps =
     (if name \<in> set (map fst ps) then set_first name v ps else ps @ [(name, v)])"

fun join :: "jsstring \<Rightarrow> jsstring list \<Rightarrow> jsstring" where
  "join sep [] = []"
| "join sep [x] = x"
| "join sep (x # y # r) = x @ sep @ join sep (y # r)"

definition pair_string :: "jsstring \<times> jsstring \<Rightarrow> jsstring" where
  "pair_string p = urlencode (fst p) @ [0x3D] @ urlencode (snd p)"

definition params_toString :: "URLSearchParams \<Rightarrow> jsstring" where
  "params_toString ps = join [0x26] (map pair_string ps)"

definition String_boolean :: "bool \<Rightarrow> jsstring" where
  "String_boolean b = (if b then str ''true'' else str ''false'')"

section \<open>The API client (class NeatPulseClient)\<close>

definition BASE_URL :: jsstring where
  "BASE_URL = str ''https://api.pulse.neat.no/v1''"

record PulseClientConfig =
  apiKey :: jsstring
  orgId :: jsstring

record NeatPulseClient =
  this_apiKey :: jsstring
  this_orgId :: jsstring

text \<open>
  A call of \<open>fetch\<close>: the URL and the \<open>RequestInit\<close> options.  The network is a function
  from the call to its settled outcome: a rejection or a \<open>Response\<close>, of which the client
  reads \<open>status\<close>, \<open>headers.get("content-type")\<close> and the body as text (which can fail).
  A promise that never settles is outside the model.  Every operation returns its result
  together with the calls of \<open>fetch\<close> it made.
\<close>

record fetch_call =
  fetch_url :: jsstring
  fetch_method :: jsstring
  fetch_headers :: "(jsstring \<times> jsstring) list"
  fetch_body :: "jsstring option"

record Response =
  res_status :: nat
  res_content_type :: "jsstring option"
  res_body :: "error + jsstring"

type_synonym network = "fetch_call \<Rightarrow> error + Response"

type_synonym outcome = "(error + json) \<times> fetch_call list"

definition new_NeatPulseClient :: "PulseClientConfig \<Rightarrow> (error + NeatPulseClient) \<times> fetch_call list" where
  "new_NeatPulseClient config = (Inr \<lparr>this_apiKey = apiKey config, this_orgId = orgId config\<rparr>, [])"

definition headers :: "NeatPulseClient \<Rightarrow> (jsstring \<times> jsstring) list" where
  "headers this =
     [(str ''Authorization'', str ''Bearer '' @ this_apiKey this),
      (str ''Content-Type'', str ''application/json''),
      (str ''Accept'', str ''application/json'')]"

definition url :: "NeatPulseClient \<Rightarrow> jsstring \<Rightarrow> jsstring" where
  "url this path = BASE_URL @ str ''/orgs/'' @ this_orgId this @ path"

definition ok :: "Response \<Rightarrow> bool" where
  "ok res = (200 \<le> res_status res \<and> res_status res \<le> 299)"

definition Response_text :: "Response \<Rightarrow> error + json" where
  "Response_text res = (case res_body res of Inl e \<Rightarrow> Inl e | Inr t \<Rightarrow> Inr (JString t))"

definition Response_json :: "Response \<Rightarrow> error + json" where
  "Response_json res = (case res_body res of Inl e \<Rightarrow> Inl e | Inr t \<Rightarrow> JSON_parse t)"

text \<open>
  \<open>options\<close> is what \<open>request\<close> hands to \<open>fetch\<close>: the URL and the \<open>RequestInit\<close> it builds,
  with a body only when the \<open>body\<close> argument is defined.
\<close>

definition options :: "NeatPulseClient \<Rightarrow> jsstring \<Rightarrow> jsstring \<Rightarrow> json option \<Rightarrow> fetch_call" where
  "options this method path body =
     \<lparr>fetch_url = url this path, fetch_method = method, fetch_headers = headers this,
      fetch_body = (case body of None \<Rightarrow> None | Some b \<Rightarrow> Some (JSON_stringify b 0))\<rparr>"

definition request :: "NeatPulseClient \<Rightarrow> network \<Rightarrow> jsstring \<Rightarrow> jsstring \<Rightarrow> json option \<Rightarrow> outcome" where
  "request this net method path body =
     (case net (options this method path body) of
        Inl e \<Rightarrow> (Inl e, [options this method path body])
      | Inr res \<Rightarrow>
          if \<not> ok res then
            (let text = (case res_body res of Inl e \<Rightarrow> [] | Inr t \<Rightarrow> t)
             in (Inl (Error (str ''Neat Pulse API '' @ method @ str '' '' @ path @ str '' returned ''
                               @ dec (res_status res) @ str '': '' @ text)),
                 [options this method path body]))
          else
            (let contentType = (case res_content_type res of None \<Rightarrow> [] | Some c \<Rightarrow> c)
             in if sublist (str ''application/json'') contentType
                then (Response_json res, [options this method path body])
                else (Response_text res, [options this method path body])))"

definition query :: "jsstring \<Rightarrow> jsstring" where
  "query qs = (if qs \<noteq> [] then str ''?'' @ qs else [])"

definition filter_params :: "number option \<Rightarrow> number option \<Rightarrow> URLSearchParams" where
  "filter_params regionId locationId =
     (let params = [];
          params = (case regionId of None \<Rightarrow> params
                    | Some r \<Rightarrow> params_set (str ''regionId'') (Number_toString r) params);
          params = (case locationId of None \<Rightarrow> params
                    | Some l \<Rightarrow> params_set (str ''locationId'') (Number_toString l) params)
      in params)"

definition listEndpoints :: "NeatPulseClient \<Rightarrow> network \<Rightarrow> number option \<Rightarrow> number option \<Rightarrow> outcome" where
  "listEndpoints this net regionId locationId =
     (let qs = params_toString (filter_params regionId locationId)
      in request this net (str ''GET'') (str ''/endpoints'' @ query qs) None)"

definition getEndpoint :: "NeatPulseClient \<Rightarrow> network \<Rightarrow> jsstring \<Rightarrow> outcome" where
  "getEndpoint this net id' = request this net (str ''GET'') (str ''/endpoints/'' @ id') None"

definition getEndpointSettings :: "NeatPulseClient \<Rightarrow> network \<Rightarrow> jsstring \<Rightarrow> outcome" where
  "getEndpointSettings this net id' =
     request this net (str ''GET'') (str ''/endpoints/'' @ id' @ str ''/config'') None"

definition applyEndpointConfig :: "NeatPulseClient \<Rightarrow> network \<Rightarrow> jsstring \<Rightarrow> json \<Rightarrow> outcome" where
  "applyEndpointConfig this net id' config =
     request this net (str ''POST'') (str ''/endpoints/'' @ id' @ str ''/config'') (Some config)"

definition rebootEndpoint :: "NeatPulseClient \<Rightarrow> network \<Rightarrow> jsstring \<Rightarrow> outcome" where
  "rebootEndpoint this net id' =
     request this net (str ''POST'') (str ''/endpoints/'' @ id' @ str ''/reboot'') None"

definition deleteEndpoint :: "NeatPulseClient \<Rightarrow> network \<Rightarrow> jsstring \<Rightarrow> outcome" where
  "deleteEndpoint this net id' = request this net (str ''DELETE'') (str ''/endpoints/'' @ id') None"

definition getEndpointSensorData :: "NeatPulseClient \<Rightarrow> network \<Rightarrow> jsstring \<Rightarrow> outcome" where
  "getEndpointSensorData this net id' =
     request this net (str ''GET'') (str ''/endpoints/'' @ id' @ str ''/sensor'') None"

definition getBulkSensorData :: "NeatPulseClient \<Rightarrow> network \<Rightarrow> number option \<Rightarrow> number option \<Rightarrow> outcome" where
  "getBulkSensorData this net regionId locationId =
     (let qs = params_toString (filter_params regionId locationId)
      in request this net (str ''GET'') (str ''/endpoints/sensor'' @ query qs) None)"

definition listRooms :: "NeatPulseClient \<Rightarrow> network \<Rightarrow> outcome" where
  "listRooms this net = request this net (str ''GET'') (str ''/rooms'') None"

definition getRoom :: "NeatPulseClient \<Rightarrow> network \<Rightarrow> jsstring \<Rightarrow> outcome" where
  "getRoom this net id' = request this net (str ''GET'') (str ''/rooms/'' @ id') None"

definition createRoom :: "NeatPulseClient \<Rightarrow> network \<Rightarrow> json \<Rightarrow> outcome" where
  "createRoom this net data = request this net (str ''POST'') (str ''/rooms'') (Some data)"

definition updateRoom :: "NeatPulseClient \<Rightarrow> network \<Rightarrow> jsstring \<Rightarrow> json \<Rightarrow> outcome" where
  "updateRoom this net id' data = request this net (str ''PUT'') (str ''/rooms/'' @ id') (Some data)"

definition deleteRoom :: "NeatPulseClient \<Rightarrow> network \<Rightarrow> jsstring \<Rightarrow> outcome" where
  "deleteRoom this net id' = request this net (str ''DELETE'') (str ''/rooms/'' @ id') None"

definition getRoomSensorData :: "NeatPulseClient \<Rightarrow> network \<Rightarrow> jsstring \<Rightarrow> outcome" where
  "getRoomSensorData this net id' =
     request this net (str ''GET'') (str ''/rooms/'' @ id' @ str ''/sensor'') None"

definition getBulkRoomSensorData :: "NeatPulseClient \<Rightarrow> network \<Rightarrow> outcome" where
  "getBulkRoomSensorData this net = request this net (str ''GET'') (str ''/rooms/sensor'') None"

definition regenerateRoomDec :: "NeatPulseClient \<Rightarrow> network \<Rightarrow> jsstring \<Rightarrow> outcome" where
  "regenerateRoomDec this net id' =
     request this net (str ''POST'') (str ''/rooms/'' @ id' @ str ''/regenerate-dec'') None"

definition listLocations :: "NeatPulseClient \<Rightarrow> network \<Rightarrow> outcome" where
  "listLocations this net = request this net (str ''GET'') (str ''/locations'') None"

definition createLocation :: "NeatPulseClient \<Rightarrow> network \<Rightarrow> json \<Rightarrow> outcome" where
  "createLocation this net data = request this net (str ''POST'') (str ''/locations'') (Some data)"

definition updateLocation :: "NeatPulseClient \<Rightarrow> network \<Rightarrow> number \<Rightarrow> json \<Rightarrow> outcome" where
  "updateLocation this net id' data =
     request this net (str ''PUT'') (str ''/locations/'' @ Number_toString id') (Some data)"

definition deleteLocation :: "NeatPulseClient \<Rightarrow> network \<Rightarrow> number \<Rightarrow> outcome" where
  "deleteLocation this net id' =
     request this net (str ''DELETE'') (str ''/locations/'' @ Number_toString id') None"

definition listRegions :: "NeatPulseClient \<Rightarrow> network \<Rightarrow> outcome" where
  "listRegions this net = request this net (str ''GET'') (str ''/regions'') None"

definition createRegion :: "NeatPulseClient \<Rightarrow> network \<Rightarrow> json \<Rightarrow> outcome" where
  "createRegion this net data = request this net (str ''POST'') (str ''/regions'') (Some data)"

definition updateRegion :: "NeatPulseClient \<Rightarrow> network \<Rightarrow> number \<Rightarrow> json \<Rightarrow> outcome" where
  "updateRegion this net id' data =
     request this net (str ''PUT'') (str ''/regions/'' @ Number_toString id') (Some data)"

definition deleteRegion :: "NeatPulseClient \<Rightarrow> network \<Rightarrow> number \<Rightarrow> outcome" where
  "deleteRegion this net id' =
     request this net (str ''DELETE'') (str ''/regions/'' @ Number_toString id') None"

definition listProfiles :: "NeatPulseClient \<Rightarrow> network \<Rightarrow> outcome" where
  "listProfiles this net = request this net (str ''GET'') (str ''/profiles'') None"

definition audit_params :: "jsstring \<Rightarrow> jsstring \<Rightarrow> jsstring option \<Rightarrow> number option \<Rightarrow> URLSearchParams" where
  "audit_params from to pageToken pageSize =
     (let params = [(str ''from'', from), (str ''to'', to)];
          params = (case pageToken of None \<Rightarrow> params
                    | Some t \<Rightarrow> params_set (str ''pageToken'') t params);
          params = (case pageSize of None \<Rightarrow> params
                    | Some n \<Rightarrow> params_set (str ''pageSize'') (Number_toString n) params)
      in params)"

definition getAuditLogs ::
  "NeatPulseClient \<Rightarrow> network \<Rightarrow> jsstring \<Rightarrow> jsstring \<Rightarrow> jsstring option \<Rightarrow> number option \<Rightarrow> outcome" where
  "getAuditLogs this net from to pageToken pageSize =
     request this net (str ''GET'')
       (str ''/audit/logs?'' @ params_toString (audit_params from to pageToken pageSize)) None"

definition bug_report_params :: "bool option \<Rightarrow> URLSearchParams" where
  "bug_report_params uploadInCallLogs =
     (case uploadInCallLogs of None \<Rightarrow> []
      | Some b \<Rightarrow> params_set (str ''uploadInCallLogs'') (String_boolean b) [])"

definition generateBugReport :: "NeatPulseClient \<Rightarrow> network \<Rightarrow> jsstring list \<Rightarrow> bool option \<Rightarrow> outcome" where
  "generateBugReport this net ids uploadInCallLogs =
     (let qs = params_toString (bug_report_params uploadInCallLogs)
      in request this net (str ''POST'') (str ''/endpoints/generate_bug_report'' @ query qs)
           (Some (JArray (map JString ids))))"

definition listRoomNotes :: "NeatPulseClient \<Rightarrow> network \<Rightarrow> jsstring \<Rightarrow> outcome" where
  "listRoomNotes this net roomId =
     request this net (str ''GET'') (str ''/rooms/'' @ roomId @ str ''/notes'') None"

definition getRoomNote :: "NeatPulseClient \<Rightarrow> network \<Rightarrow> jsstring \<Rightarrow> jsstring \<Rightarrow> outcome" where
  "getRoomNote this net roomId noteId =
     request this net (str ''GET'') (str ''/rooms/'' @ roomId @ str ''/notes/'' @ noteId) None"

definition createRoomNote :: "NeatPulseClient \<Rightarrow> network \<Rightarrow> jsstring \<Rightarrow> json \<Rightarrow> outcome" where
  "createRoomNote this net roomId content =
     request this net (str ''POST'') (str ''/rooms/'' @ roomId @ str ''/notes'') (Some content)"

definition deleteRoomNote :: "NeatPulseClient \<Rightarrow> network \<Rightarrow> jsstring \<Rightarrow> jsstring \<Rightarrow> outcome" where
  "deleteRoomNote this net roomId noteId =
     request this net (str ''DELETE'') (str ''/rooms/'' @ roomId @ str ''/notes/'' @ noteId) None"

definition listAllRoomNotes :: "NeatPulseClient \<Rightarrow> network \<Rightarrow> outcome" where
  "listAllRoomNotes this net = request this net (str ''GET'') (str ''/rooms/notes'') None"

definition listUsers :: "NeatPulseClient \<Rightarrow> network \<Rightarrow> outcome" where
  "listUsers this net = request this net (str ''GET'') (str ''/users'') None"

definition getUser :: "NeatPulseClient \<Rightarrow> network \<Rightarrow> jsstring \<Rightarrow> outcome" where
  "getUser this net id' = request this net (str ''GET'') (str ''/users/'' @ id') None"

definition createUser :: "NeatPulseClient \<Rightarrow> network \<Rightarrow> json \<Rightarrow> outcome" where
  "createUser this net data = request this net (str ''POST'') (str ''/users'') (Some data)"

definition updateUser :: "NeatPulseClient \<Rightarrow> network \<Rightarrow> jsstring \<Rightarrow> json \<Rightarrow> outcome" where
  "updateUser this net id' data = request this net (str ''PUT'') (str ''/users/'' @ id') (Some data)"

definition deleteUser :: "NeatPulseClient \<Rightarrow> network \<Rightarrow> jsstring \<Rightarrow> outcome" where
  "deleteUser this net id' = request this net (str ''DELETE'') (str ''/users/'' @ id') None"

section \<open>The tool adapter\<close>

record content_item =
  ctype :: jsstring
  ctext :: jsstring

record ToolEnvelope =
  content :: "content_item list"
  isError :: "bool option"

definition json :: "json \<Rightarrow> ToolEnvelope" where
  "json data = \<lparr>content = [\<lparr>ctype = str ''text'', ctext = JSON_stringify data 2\<rparr>], isError = None\<rparr>"

definition error :: "jsstring \<Rightarrow> ToolEnvelope" where
  "error msg = \<lparr>content = [\<lparr>ctype = str ''text'', ctext = str ''Error: '' @ msg\<rparr>], isError = Some True\<rparr>"

text \<open>
  A tool call is the tool's name with the arguments its schema admits (the SDK validates
  them before the handler runs): strings, Numbers, booleans, arrays of them, the
  enumeration \<open>owner | admin\<close>; an optional parameter that is not supplied is \<open>None\<close>.
\<close>

datatype role = owner | admin

datatype tool_call =
    list_devices "number option" "number option"
  | get_device jsstring
  | get_device_settings jsstring
  | apply_device_config jsstring jsstring
  | reboot_device jsstring
  | delete_device jsstring
  | get_device_sensors jsstring
  | get_all_device_sensors "number option" "number option"
  | get_room_sensors jsstring
  | get_all_room_sensors
  | list_rooms
  | get_room jsstring
  | create_room jsstring "number option"
  | update_room jsstring "jsstring option" "number option"
  | delete_room jsstring
  | regenerate_room_dec jsstring
  | list_locations
  | create_location jsstring "number option"
  | update_location number "jsstring option" "number option"
  | delete_location number
  | list_regions
  | create_region jsstring
  | update_region number jsstring
  | delete_region number
  | list_users
  | get_user jsstring
  | create_user jsstring "role option" "number list option"
  | update_user jsstring "role option" "number list option"
  | delete_user jsstring
  | list_profiles
  | get_audit_logs jsstring jsstring "jsstring option" "number option"
  | generate_bug_report "jsstring list" "bool option"
  | list_room_notes jsstring
  | get_room_note jsstring jsstring
  | create_room_note jsstring jsstring
  | delete_room_note jsstring jsstring
  | list_all_room_notes

text \<open>
  The object the handler receives holds the supplied arguments in the order of the schema;
  \<open>property\<close> is one property of it, absent when the optional argument was not supplied.
\<close>

definition property :: "string \<Rightarrow> json option \<Rightarrow> (jsstring \<times> json) list" where
  "property k v = (case v of None \<Rightarrow> [] | Some x \<Rightarrow> [(str k, x)])"

definition role_string :: "role \<Rightarrow> jsstring" where
  "role_string r = (case r of owner \<Rightarrow> str ''owner'' | admin \<Rightarrow> str ''admin'')"

definition user_props :: "role option \<Rightarrow> number list option \<Rightarrow> (jsstring \<times> json) list" where
  "user_props r regionIds =
     property ''role'' (map_option (\<lambda>x. JString (role_string x)) r)
       @ property ''regionIds'' (map_option (\<lambda>xs. JArray (map JNumber xs)) regionIds)"

text \<open>
  Every handler is the same block around one client call,
  \<open>try { const data = await ...; return json(data); } catch (e) { return error(e.message); }\<close>
  (two of them parse a JSON argument first, inside the \<open>try\<close>).  \<open>invoke\<close> is what the
  \<open>try\<close> computes for each tool, \<open>handler\<close> the block around it.
\<close>

primrec invoke :: "NeatPulseClient \<Rightarrow> network \<Rightarrow> tool_call \<Rightarrow> outcome" where
  "invoke pulse net (list_devices regionId locationId) =
     listEndpoints pulse net regionId locationId"
| "invoke pulse net (get_device id') = getEndpoint pulse net id'"
| "invoke pulse net (get_device_settings id') = getEndpointSettings pulse net id'"
| "invoke pulse net (apply_device_config id' config) =
     (case JSON_parse config of
        Inl e \<Rightarrow> (Inl e, [])
      | Inr parsed \<Rightarrow> applyEndpointConfig pulse net id' parsed)"
| "invoke pulse net (reboot_device id') = rebootEndpoint pulse net id'"
| "invoke pulse net (delete_device id') = deleteEndpoint pulse net id'"
| "invoke pulse net (get_device_sensors id') = getEndpointSensorData pulse net id'"
| "invoke pulse net (get_all_device_sensors regionId locationId) =
     getBulkSensorData pulse net regionId locationId"
| "invoke pulse net (get_room_sensors id') = getRoomSensorData pulse net id'"
| "invoke pulse net get_all_room_sensors = getBulkRoomSensorData pulse net"
| "invoke pulse net list_rooms = listRooms pulse net"
| "invoke pulse net (get_room id') = getRoom pulse net id'"
| "invoke pulse net (create_room name locationId) =
     (createRoom pulse net
       (JObject ([(str ''name'', JString name)] @ property ''locationId'' (map_option JNumber locationId))))"
| "invoke pulse net (update_room id' name locationId) =
     (updateRoom pulse net id'
       (JObject (property ''name'' (map_option JString name) @ property ''locationId'' (map_option JNumber locationId))))"
| "invoke pulse net (delete_room id') = deleteRoom pulse net id'"
| "invoke pulse net (regenerate_room_dec id') = regenerateRoomDec pulse net id'"
| "invoke pulse net list_locations = listLocations pulse net"
| "invoke pulse net (create_location name regionId) =
     (createLocation pulse net
       (JObject ([(str ''name'', JString name)] @ property ''regionId'' (map_option JNumber regionId))))"
| "invoke pulse net (update_location id' name regionId) =
     (updateLocation pulse net id'
       (JObject (property ''name'' (map_option JString name) @ property ''regionId'' (map_option JNumber regionId))))"
| "invoke pulse net (delete_location id') = deleteLocation pulse net id'"
| "invoke pulse net list_regions = listRegions pulse net"
| "invoke pulse net (create_region name) =
     (createRegion pulse net (JObject [(str ''name'', JString name)]))"
| "invoke pulse net (update_region id' name) =
     (updateRegion pulse net id' (JObject [(str ''name'', JString name)]))"
| "invoke pulse net (delete_region id') = deleteRegion pulse net id'"
| "invoke pulse net list_users = listUsers pulse net"
| "invoke pulse net (get_user id') = getUser pulse net id'"
| "invoke pulse net (create_user email r regionIds) =
     (createUser pulse net (JObject ([(str ''email'', JString email)] @ user_props r regionIds)))"
| "invoke pulse net (update_user id' r regionIds) =
     (updateUser pulse net id' (JObject (user_props r regionIds)))"
| "invoke pulse net (delete_user id') = deleteUser pulse net id'"
| "invoke pulse net list_profiles = listProfiles pulse net"
| "invoke pulse net (get_audit_logs from to pageToken pageSize) =
     getAuditLogs pulse net from to pageToken pageSize"
| "invoke pulse net (generate_bug_report ids uploadInCallLogs) =
     generateBugReport pulse net ids uploadInCallLogs"
| "invoke pulse net (list_room_notes roomId) = listRoomNotes pulse net roomId"
| "invoke pulse net (get_room_note roomId noteId) = getRoomNote pulse net roomId noteId"
| "invoke pulse net (create_room_note roomId note) =
     (case JSON_parse note of
        Inl e \<Rightarrow> (Inl e, [])
      | Inr parsed \<Rightarrow> createRoomNote pulse net roomId parsed)"
| "invoke pulse net (delete_room_note roomId noteId) =
     deleteRoomNote pulse net roomId noteId"
| "invoke pulse net list_all_room_notes = listAllRoomNotes pulse net"

definition handler :: "NeatPulseClient \<Rightarrow> network \<Rightarrow> tool_call \<Rightarrow> ToolEnvelope \<times> fetch_call list" where
  "handler pulse net call =
     (case invoke pulse net call of
        (Inr data, calls) \<Rightarrow> (json data, calls)
      | (Inl e, calls) \<Rightarrow> (error (message e), calls))"

text \<open>
  The entry point reads the two environment variables and constructs the client only when
  both are set and non-empty; otherwise it prints to stderr and exits with status 1.
\<close>

datatype startup = Exit nat jsstring | Started NeatPulseClient

definition bootstrap :: "jsstring option \<Rightarrow> jsstring option \<Rightarrow> startup \<times> fetch_call list" where
  "bootstrap env_apiKey env_orgId =
     (case (env_apiKey, env_orgId) of
        (Some k, Some g) \<Rightarrow>
          if k = [] \<or> g = [] then
            (Exit 1 (str ''Error: NEAT_PULSE_API_KEY and NEAT_PULSE_ORG_ID environment variables are required.''), [])
          else (case new_NeatPulseClient \<lparr>apiKey = k, orgId = g\<rparr> of
                  (Inr pulse, calls) \<Rightarrow> (Started pulse, calls)
                | (Inl e, calls) \<Rightarrow> (Exit 1 (message e), calls))
      | _ \<Rightarrow> (Exit 1 (str ''Error: NEAT_PULSE_API_KEY and NEAT_PULSE_ORG_ID environment variables are required.''), []))"

section \<open>Fixtures\<close>

text \<open>
  A client and two networks for the concrete cases: \<open>mock res\<close> answers every call with the
  response \<open>res\<close>, \<open>offline e\<close> rejects every call with \<open>e\<close>.
\<close>

definition demo_client :: NeatPulseClient where
  "demo_client = \<lparr>this_apiKey = str ''secret'', this_orgId = str ''org1''\<rparr>"

definition mock :: "Response \<Rightarrow> network" where
  "mock res = (\<lambda>c. Inr res)"

definition offline :: "error \<Rightarrow> network" where
  "offline e = (\<lambda>c. Inl e)"

section \<open>JSON.parse inverts JSON.stringify\<close>

subsection \<open>Digits and numbers\<close>

lemma str_Nil [simp]: "str [] = []" by (simp add: str_def)













declare dec.simps [simp del]
















lemma unat_of_nat16: "n < 65536 \<Longrightarrow> unat (of_nat n :: 16 word) = n"
proof -
  assume "n < 65536"
  have "unat (of_nat n :: 16 word) = n mod 2 ^ LENGTH(16)"
    by (rule unat_of_nat)
  with \<open>n < 65536\<close> show ?thesis by simp
qed

lemma unat_hex_unit: "h < 16 \<Longrightarrow> unat (hex_unit h) = (if h < 10 then 48 + h else 87 + h)"
proof -
  assume h: "h < 16"
  have a: "unat (of_nat (48 + h) :: 16 word) = 48 + h" "unat (of_nat (87 + h) :: 16 word) = 87 + h"
    using h by (intro unat_of_nat16; simp)+
  show ?thesis
    unfolding hex_unit_def using a by (simp only: if_distrib [of unat] split: if_splits)
qed

lemma hex_val_hex_unit: "h < 16 \<Longrightarrow> hex_val (hex_unit h) = Some h"
  unfolding hex_val_def word_le_nat_alt
  by (simp add: unat_hex_unit)

lemma hex_digits_sum:
  fixes n :: nat
  assumes "n < 65536"
  shows "((n div 4096 mod 16 * 16 + n div 256 mod 16) * 16 + n div 16 mod 16) * 16 + n mod 16 = n"
proof -
  have a: "n div 4096 < 16"
    using assms by (simp add: div_less_iff_less_mult)
  have b: "n div 4096 = n div 256 div 16" "n div 256 = n div 16 div 16"
    by (simp_all add: div_mult2_eq [symmetric])
  have "n div 4096 mod 16 * 16 + n div 256 mod 16 = n div 256"
    using a by (simp add: b(1))
  moreover have "n div 256 * 16 + n div 16 mod 16 = n div 16"
    by (simp add: b(2))
  ultimately show ?thesis
    by simp
qed

lemma hex4_unicode_escape:
  "hex4 (hex_unit (unat u div 4096 mod 16)) (hex_unit (unat u div 256 mod 16))
        (hex_unit (unat u div 16 mod 16)) (hex_unit (unat u mod 16)) = Some (u :: 16 word)"
proof -
  have "unat u < 65536"
    using unsigned_less [of u] by simp
  then have "((unat u div 4096 mod 16 * 16 + unat u div 256 mod 16) * 16 + unat u div 16 mod 16) * 16
               + unat u mod 16 = unat u"
    by (rule hex_digits_sum)
  then have "(of_nat (((unat u div 4096 mod 16 * 16 + unat u div 256 mod 16) * 16 + unat u div 16 mod 16) * 16
               + unat u mod 16) :: 16 word) = of_nat (unat u)"
    by (simp only:)
  then have e: "(of_nat (((unat u div 4096 mod 16 * 16 + unat u div 256 mod 16) * 16 + unat u div 16 mod 16) * 16
               + unat u mod 16) :: 16 word) = u"
    by simp
  have h: "hex_val (hex_unit (unat u div 4096 mod 16)) = Some (unat u div 4096 mod 16)"
    "hex_val (hex_unit (unat u div 256 mod 16)) = Some (unat u div 256 mod 16)"
    "hex_val (hex_unit (unat u div 16 mod 16)) = Some (unat u div 16 mod 16)"
    "hex_val (hex_unit (unat u mod 16)) = Some (unat u mod 16)"
    by (intro hex_val_hex_unit; simp)+
  show ?thesis
    unfolding hex4_def h using e by (simp only: prod.case option.case)
qed

lemma parse_string_unicode_escape:
  "parse_string (unicode_escape u @ t) = cons_result u (parse_string t)"
  by (simp add: unicode_escape_def hex4_unicode_escape)

lemma parse_string_escaped:
  assumes "unescape e = Some c" and "e \<noteq> 0x75"
  shows "parse_string ([0x5C, e] @ t) = cons_result c (parse_string t)"
  using assms by simp

lemma parse_string_plain:
  assumes "u \<noteq> 0x22" and "u \<noteq> 0x5C" and "\<not> u < 0x20"
  shows "parse_string (u # t) = cons_result u (parse_string t)"
  using assms by simp

lemma surrogate_plain:
  assumes "is_lead u \<or> is_trail u"
  shows "u \<noteq> 0x22" "u \<noteq> 0x5C" "\<not> u < 0x20"
  using assms by (auto simp: is_lead_def is_trail_def word_le_nat_alt word_less_nat_alt)

lemma parse_string_quote_escaped:
  assumes "quote_unit u = [0x5C, e]" and "unescape e = Some u" and "e \<noteq> 0x75"
  shows "parse_string (quote_unit u @ t) = cons_result u (parse_string t)"
  using assms by simp

lemma parse_string_quote_unit:
  "parse_string (quote_unit u @ t) = cons_result u (parse_string t)"
proof -
  consider "u = 0x08" | "u = 0x09" | "u = 0x0A" | "u = 0x0C" | "u = 0x0D" | "u = 0x22" | "u = 0x5C"
    | "u \<notin> {0x08, 0x09, 0x0A, 0x0C, 0x0D, 0x22, 0x5C}" "u < 0x20 \<or> is_lead u \<or> is_trail u"
    | "u \<notin> {0x08, 0x09, 0x0A, 0x0C, 0x0D, 0x22, 0x5C}" "\<not> (u < 0x20 \<or> is_lead u \<or> is_trail u)"
    by blast
  then show ?thesis
  proof cases
    case 1
    then show ?thesis
      by (intro parse_string_quote_escaped [where e = "0x62"]) (simp_all add: quote_unit_def unescape_def)
  next
    case 2
    then show ?thesis
      by (intro parse_string_quote_escaped [where e = "0x74"]) (simp_all add: quote_unit_def unescape_def)
  next
    case 3
    then show ?thesis
      by (intro parse_string_quote_escaped [where e = "0x6E"]) (simp_all add: quote_unit_def unescape_def)
  next
    case 4
    then show ?thesis
      by (intro parse_string_quote_escaped [where e = "0x66"]) (simp_all add: quote_unit_def unescape_def)
  next
    case 5
    then show ?thesis
      by (intro parse_string_quote_escaped [where e = "0x72"]) (simp_all add: quote_unit_def unescape_def)
  next
    case 6
    then show ?thesis
      by (intro parse_string_quote_escaped [where e = "0x22"]) (simp_all add: quote_unit_def unescape_def)
  next
    case 7
    then show ?thesis
      by (intro parse_string_quote_escaped [where e = "0x5C"]) (simp_all add: quote_unit_def unescape_def)
  next
    case 8
    then have "quote_unit u = unicode_escape u"
      by (simp add: quote_unit_def)
    then show ?thesis
      by (simp only: parse_string_unicode_escape)
  next
    case 9
    then have "quote_unit u = [u]"
      by (simp add: quote_unit_def)
    moreover have "parse_string (u # t) = cons_result u (parse_string t)"
      using 9 by (intro parse_string_plain) auto
    ultimately show ?thesis
      by simp
  qed
qed

lemma parse_string_quote_units:
  "parse_string (quote_units s @ 0x22 # rest) = Some (s, rest)"
proof (induction s rule: quote_units.induct)
  case 1
  show ?case by simp
next
  case (2 u)
  have "parse_string (quote_unit u @ 0x22 # rest) = cons_result u (parse_string (0x22 # rest))"
    by (rule parse_string_quote_unit)
  then show ?case
    by (simp add: cons_result_def)
next
  case (3 u v r)
  show ?case
  proof (cases "is_lead u \<and> is_trail v")
    case True
    then have ih: "parse_string (quote_units r @ 0x22 # rest) = Some (r, rest)"
      by (rule 3(1))
    have u: "parse_string (u # v # quote_units r @ 0x22 # rest)
               = cons_result u (parse_string (v # quote_units r @ 0x22 # rest))"
      using True by (intro parse_string_plain surrogate_plain) simp_all
    have v: "parse_string (v # quote_units r @ 0x22 # rest)
               = cons_result v (parse_string (quote_units r @ 0x22 # rest))"
      using True by (intro parse_string_plain surrogate_plain) simp_all
    from True have "quote_units (u # v # r) = u # v # quote_units r"
      by simp
    then show ?thesis
      by (simp only: append_Cons u v ih cons_result_def option.case prod.case)
  next
    case False
    then have ih: "parse_string (quote_units (v # r) @ 0x22 # rest) = Some (v # r, rest)"
      by (rule 3(2))
    from False have "quote_units (u # v # r) = quote_unit u @ quote_units (v # r)"
      by auto
    then show ?thesis
      by (simp only: append_assoc parse_string_quote_unit ih cons_result_def option.case prod.case)
  qed
qed

lemma parse_string_Quote:
  "QuoteJSONString s @ rest = 0x22 # quote_units s @ 0x22 # rest"
  "parse_string (quote_units s @ 0x22 # rest) = Some (s, rest)"
  by (simp_all add: QuoteJSONString_def parse_string_quote_units)

subsection \<open>Whitespace and the first character of a value\<close>










subsection \<open>Scalars\<close>







subsection \<open>Arrays and objects\<close>





subsection \<open>Property order\<close>





subsection \<open>Values\<close>







subsection \<open>What the parser returns is well formed\<close>





























section \<open>Shared facts about the client\<close>

lemmas client_defs = listEndpoints_def getEndpoint_def getEndpointSettings_def applyEndpointConfig_def
  rebootEndpoint_def deleteEndpoint_def getEndpointSensorData_def getBulkSensorData_def listRooms_def
  getRoom_def createRoom_def updateRoom_def deleteRoom_def getRoomSensorData_def
  getBulkRoomSensorData_def regenerateRoomDec_def listLocations_def createLocation_def
  updateLocation_def deleteLocation_def listRegions_def createRegion_def updateRegion_def
  deleteRegion_def listProfiles_def getAuditLogs_def generateBugReport_def listRoomNotes_def
  getRoomNote_def createRoomNote_def deleteRoomNote_def listAllRoomNotes_def listUsers_def
  getUser_def createUser_def updateUser_def deleteUser_def

lemma request_calls: "snd (request this net m p b) = [options this m p b]"
  by (simp add: request_def Let_def split: sum.splits)

lemma request_rejected: "net (options this m p b) = Inl e \<Longrightarrow> fst (request this net m p b) = Inl e"
  by (simp add: request_def)

lemma request_not_ok:
  "\<forall>c. net c = Inr res \<Longrightarrow> \<not> ok res \<Longrightarrow> \<exists>e. fst (request this net m p b) = Inl e"
  by (simp add: request_def Let_def)

lemma JSON_parse_error: "JSON_parse s = Inl e \<Longrightarrow> e = syntax_error"
  by (auto simp: JSON_parse_def split: option.splits if_splits)

lemma ex_options: "\<exists>m' p' b'. options pulse m p b = options pulse m' p' b'"
  by blast

lemma invoke_calls:
  "snd (invoke pulse net call) = [] \<or> (\<exists>m p b. snd (invoke pulse net call) = [options pulse m p b])"
  by (cases call) (simp_all add: client_defs request_calls Let_def ex_options split: sum.splits)

lemma handler_calls: "snd (handler pulse net call) = snd (invoke pulse net call)"
  by (simp add: handler_def split: prod.splits sum.splits)

lemma invoke_rejected:
  assumes "\<forall>c. net c = Inl e"
  shows "fst (invoke pulse net call) = Inl e \<or> fst (invoke pulse net call) = Inl syntax_error"
  using assms
  by (cases call) (auto simp: client_defs request_rejected Let_def dest: JSON_parse_error split: sum.splits)

lemma invoke_not_ok:
  assumes "\<forall>c. net c = Inr res" and "\<not> ok res"
  shows "\<exists>e. fst (invoke pulse net call) = Inl e"
  using assms
  by (cases call) (auto simp: client_defs Let_def intro!: request_not_ok split: sum.splits)

lemma sublist_suffix: "sublist xs (ys @ xs)"
  using sublist_appendI [of xs ys "[]"] by simp

section \<open>The adapter boundary\<close>

text \<open>
  Claim C1.  For every tool and every argument assignment the handler returns an envelope
  with one text item.  When what the \<open>try\<close> block computes (the argument transformation and
  the client call) throws \<open>e\<close>, the envelope is marked as an error and its text is
  \<open>Error: \<close> followed by the message of \<open>e\<close>; otherwise it is the success envelope of the
  result.  In particular a network that rejects every call, or answers every call with a
  failure status, yields an error envelope.  Nothing escapes: the value of \<open>handler\<close> is
  always an envelope.
\<close>

theorem handler_returns_envelope:
  "(case fst (invoke pulse net call) of
      Inl e \<Rightarrow>
        fst (handler pulse net call) =
          \<lparr>content = [\<lparr>ctype = str ''text'', ctext = str ''Error: '' @ message e\<rparr>], isError = Some True\<rparr>
        \<and> sublist (message e) (ctext (hd (content (fst (handler pulse net call)))))
    | Inr data \<Rightarrow>
        fst (handler pulse net call) =
          \<lparr>content = [\<lparr>ctype = str ''text'', ctext = JSON_stringify data 2\<rparr>], isError = None\<rparr>)
   \<and> snd (handler pulse net call) = snd (invoke pulse net call)
   \<and> ((\<forall>c. net c = Inl e) \<longrightarrow>
         fst (handler pulse net call) = error (message e)
         \<or> fst (handler pulse net call) = error (message syntax_error))
   \<and> ((\<forall>c. net c = Inr res) \<and> \<not> ok res \<longrightarrow> isError (fst (handler pulse net call)) = Some True)"
proof -
  have a: "case fst (invoke pulse net call) of
      Inl e \<Rightarrow>
        fst (handler pulse net call) =
          \<lparr>content = [\<lparr>ctype = str ''text'', ctext = str ''Error: '' @ message e\<rparr>], isError = Some True\<rparr>
        \<and> sublist (message e) (ctext (hd (content (fst (handler pulse net call)))))
    | Inr data \<Rightarrow>
        fst (handler pulse net call) =
          \<lparr>content = [\<lparr>ctype = str ''text'', ctext = JSON_stringify data 2\<rparr>], isError = None\<rparr>"
    by (cases "invoke pulse net call")
       (simp add: handler_def error_def json_def sublist_suffix split: sum.splits)
  have b: "snd (handler pulse net call) = snd (invoke pulse net call)"
    by (rule handler_calls)
  have c: "fst (handler pulse net call) = error (message e)
         \<or> fst (handler pulse net call) = error (message syntax_error)" if "\<forall>c. net c = Inl e"
    using invoke_rejected [OF that, of pulse call]
    by (cases "invoke pulse net call") (auto simp: handler_def)
  have d: "isError (fst (handler pulse net call)) = Some True" if "\<forall>c. net c = Inr res" and "\<not> ok res"
    using invoke_not_ok [OF that, of pulse call]
    by (cases "invoke pulse net call") (auto simp: handler_def error_def)
  from a b c d show ?thesis by blast
qed

theorem handler_returns_envelope_witness:
  "handler demo_client (offline (TypeError (str ''fetch failed''))) list_rooms =
     (\<lparr>content = [\<lparr>ctype = str ''text'', ctext = str ''Error: fetch failed''\<rparr>], isError = Some True\<rparr>,
      [options demo_client (str ''GET'') (str ''/rooms'') None])
   \<and> isError (fst (handler demo_client
        (mock \<lparr>res_status = 500, res_content_type = None, res_body = Inl (TypeError [])\<rparr>)
        (delete_device (str ''dev1'')))) = Some True"
proof -
  let ?net = "offline (TypeError (str ''fetch failed''))"
  let ?res = "\<lparr>res_status = 500, res_content_type = None, res_body = Inl (TypeError [])\<rparr>"
  have i: "invoke demo_client ?net list_rooms =
            (Inl (TypeError (str ''fetch failed'')), [options demo_client (str ''GET'') (str ''/rooms'') None])"
    by (simp add: listRooms_def request_def offline_def)
  have 1: "handler demo_client ?net list_rooms =
     (\<lparr>content = [\<lparr>ctype = str ''text'', ctext = str ''Error: fetch failed''\<rparr>], isError = Some True\<rparr>,
      [options demo_client (str ''GET'') (str ''/rooms'') None])"
    using handler_returns_envelope [of demo_client ?net list_rooms] i
    by (simp add: prod_eq_iff str_def)
  have h: "(\<forall>c. mock ?res c = Inr ?res) \<and> \<not> ok ?res"
    by (simp add: mock_def ok_def)
  have 2: "isError (fst (handler demo_client (mock ?res) (delete_device (str ''dev1'')))) = Some True"
    using handler_returns_envelope [of demo_client "mock ?res" "delete_device (str ''dev1'')" _ ?res] h
    by blast
  show ?thesis
    by (intro conjI 1 2)
qed

section \<open>Failure statuses\<close>

text \<open>
  Claim C2.  When the response to a request has a status outside 200..299, \<open>request\<close>
  (through which every client operation goes) raises one \<open>Error\<close>; its message is
  \<open>Neat Pulse API <method> <path> returned <status>: <text>\<close>, where the text is the body
  read as text, or the empty string when reading it fails.  So the message contains the
  method, the path, the status in decimal and the body text.  For a 404 with body
  \<open>not found\<close> it reads \<open>Neat Pulse API GET /rooms/r1 returned 404: not found\<close>.
\<close>

theorem failure_status_raises_error:
  assumes "net (options this method path body) = Inr res" and "\<not> ok res"
  shows "\<exists>msg. fst (request this net method path body) = Inl (Error msg)
           \<and> msg = str ''Neat Pulse API '' @ method @ str '' '' @ path @ str '' returned ''
                    @ dec (res_status res) @ str '': '' @ (case res_body res of Inl e \<Rightarrow> [] | Inr t \<Rightarrow> t)
           \<and> sublist method msg \<and> sublist path msg \<and> sublist (dec (res_status res)) msg
           \<and> sublist (case res_body res of Inl e \<Rightarrow> [] | Inr t \<Rightarrow> t) msg"
proof -
  let ?text = "case res_body res of Inl e \<Rightarrow> [] | Inr t \<Rightarrow> t"
  let ?msg = "str ''Neat Pulse API '' @ method @ str '' '' @ path @ str '' returned ''
                    @ dec (res_status res) @ str '': '' @ ?text"
  have r: "fst (request this net method path body) = Inl (Error ?msg)"
    using assms by (simp add: request_def Let_def)
  have m: "sublist method ?msg"
    by (rule sublist_appendI)
  have "?msg = (str ''Neat Pulse API '' @ method @ str '' '') @ path @ (str '' returned ''
                    @ dec (res_status res) @ str '': '' @ ?text)"
    by (simp only: append_assoc)
  then have p: "sublist path ?msg"
    by (simp only: sublist_appendI)
  have "?msg = (str ''Neat Pulse API '' @ method @ str '' '' @ path @ str '' returned '')
                    @ dec (res_status res) @ (str '': '' @ ?text)"
    by (simp only: append_assoc)
  then have s: "sublist (dec (res_status res)) ?msg"
    by (simp only: sublist_appendI)
  have "?msg = (str ''Neat Pulse API '' @ method @ str '' '' @ path @ str '' returned ''
                    @ dec (res_status res) @ str '': '') @ ?text"
    by (simp only: append_assoc)
  then have t: "sublist ?text ?msg"
    by (simp only: sublist_suffix)
  from r m p s t show ?thesis by blast
qed

theorem failure_status_witness:
  "fst (request demo_client
          (mock \<lparr>res_status = 404, res_content_type = None, res_body = Inr (str ''not found'')\<rparr>)
          (str ''GET'') (str ''/rooms/r1'') None)
     = Inl (Error (str ''Neat Pulse API GET /rooms/r1 returned 404: not found''))
   \<and> sublist (str ''GET'') (str ''Neat Pulse API GET /rooms/r1 returned 404: not found'')
   \<and> sublist (str ''/rooms/r1'') (str ''Neat Pulse API GET /rooms/r1 returned 404: not found'')
   \<and> sublist (str ''404'') (str ''Neat Pulse API GET /rooms/r1 returned 404: not found'')
   \<and> sublist (str ''not found'') (str ''Neat Pulse API GET /rooms/r1 returned 404: not found'')"
proof -
  let ?res = "\<lparr>res_status = 404, res_content_type = None, res_body = Inr (str ''not found'')\<rparr>"
  have h1: "mock ?res (options demo_client (str ''GET'') (str ''/rooms/r1'') None) = Inr ?res"
    by (simp add: mock_def)
  have h2: "\<not> ok ?res"
    by (simp add: ok_def)
  have r: "fst (request demo_client (mock ?res) (str ''GET'') (str ''/rooms/r1'') None)
     = Inl (Error (str ''Neat Pulse API GET /rooms/r1 returned 404: not found''))"
    using failure_status_raises_error [of "mock ?res" demo_client "str ''GET''" "str ''/rooms/r1''" None ?res, OF h1 h2]
    by (simp add: str_def digit_unit_def dec.simps)
  have s1: "sublist (str ''GET'') (str ''Neat Pulse API GET /rooms/r1 returned 404: not found'')"
    by code_simp
  have s2: "sublist (str ''/rooms/r1'') (str ''Neat Pulse API GET /rooms/r1 returned 404: not found'')"
    by code_simp
  have s3: "sublist (str ''404'') (str ''Neat Pulse API GET /rooms/r1 returned 404: not found'')"
    by code_simp
  have s4: "sublist (str ''not found'') (str ''Neat Pulse API GET /rooms/r1 returned 404: not found'')"
    by code_simp
  show ?thesis
    by (intro conjI r s1 s2 s3 s4)
qed

section \<open>Argument parsing\<close>

text \<open>
  Claim C4.  When the \<open>config\<close> argument of \<open>apply_device_config\<close> is not valid JSON text,
  \<open>JSON.parse\<close> throws its SyntaxError inside the \<open>try\<close>: the handler returns the error
  envelope whose text is \<open>Error: \<close> followed by the message of that parse error, and no
  call of \<open>fetch\<close> is made, \<open>applyEndpointConfig\<close> is never reached.  The same holds for the
  \<open>content\<close> argument of \<open>create_room_note\<close>.
\<close>

theorem invalid_json_argument_is_reported:
  assumes "JSON_parse config = Inl e"
  shows "handler pulse net (apply_device_config id' config) = (error (message e), [])
       \<and> handler pulse net (create_room_note roomId config) = (error (message e), [])
       \<and> e = syntax_error
       \<and> isError (error (message e)) = Some True
       \<and> map ctext (content (error (message e))) = [str ''Error: '' @ message e]"
proof -
  have "e = syntax_error"
    using assms by (auto simp: JSON_parse_def split: option.splits if_splits)
  with assms show ?thesis
    by (simp add: handler_def error_def)
qed

theorem invalid_json_argument_witness:
  "handler demo_client (offline (TypeError [])) (apply_device_config (str ''dev1'') (str ''{not valid json''))
     = (\<lparr>content = [\<lparr>ctype = str ''text'', ctext = str ''Error: Unexpected token in JSON''\<rparr>],
         isError = Some True\<rparr>, [])
   \<and> handler demo_client (offline (TypeError [])) (create_room_note (str ''room1'') (str ''{not valid json''))
     = (\<lparr>content = [\<lparr>ctype = str ''text'', ctext = str ''Error: Unexpected token in JSON''\<rparr>],
         isError = Some True\<rparr>, [])"
proof -
  have h: "JSON_parse (str ''{not valid json'') = Inl syntax_error"
    by code_simp
  show ?thesis
    using invalid_json_argument_is_reported [OF h, of demo_client "offline (TypeError [])" "str ''dev1''" "str ''room1''"]
    by (simp add: error_def syntax_error_def str_def)
qed

section \<open>Decoding a success response\<close>

text \<open>
  Claim C5.  For a response with a success status the value \<open>request\<close> returns is a
  function of the content-type header and the body alone: when the content type contains
  \<open>application/json\<close> the body is parsed as JSON and the parsed value returned, a parse
  failure being the error of the call; otherwise the body text is returned as it is.  (A body
  that cannot be read fails the call in both branches.)
\<close>

theorem success_decoded_by_content_type:
  assumes "net (options this method path body) = Inr res" and "ok res"
  shows "fst (request this net method path body) =
           (case res_body res of
              Inl e \<Rightarrow> Inl e
            | Inr t \<Rightarrow>
                if sublist (str ''application/json'') (case res_content_type res of None \<Rightarrow> [] | Some c \<Rightarrow> c)
                then JSON_parse t else Inr (JString t))"
  using assms
  by (simp add: request_def Let_def Response_json_def Response_text_def split: sum.splits)

theorem success_decoded_witness:
  "fst (request demo_client
         (mock \<lparr>res_status = 200, res_content_type = Some (str ''application/json; charset=utf-8''),
                res_body = Inr (str ''{\"id\":\"abc\"}'')\<rparr>) (str ''GET'') (str ''/rooms/r1'') None)
     = Inr (JObject [(str ''id'', JString (str ''abc''))])
   \<and> fst (request demo_client
         (mock \<lparr>res_status = 200, res_content_type = Some (str ''text/plain''),
                res_body = Inr (str ''{\"id\":\"abc\"}'')\<rparr>) (str ''GET'') (str ''/rooms/r1'') None)
     = Inr (JString (str ''{\"id\":\"abc\"}''))
   \<and> fst (request demo_client
         (mock \<lparr>res_status = 200, res_content_type = Some (str ''application/json''),
                res_body = Inr (str ''<html>'')\<rparr>) (str ''GET'') (str ''/rooms/r1'') None)
     = Inl syntax_error"
proof -
  let ?r1 = "\<lparr>res_status = 200, res_content_type = Some (str ''application/json; charset=utf-8''),
                res_body = Inr (str ''{\"id\":\"abc\"}'')\<rparr>"
  let ?r2 = "\<lparr>res_status = 200, res_content_type = Some (str ''text/plain''),
                res_body = Inr (str ''{\"id\":\"abc\"}'')\<rparr>"
  let ?r3 = "\<lparr>res_status = 200, res_content_type = Some (str ''application/json''),
                res_body = Inr (str ''<html>'')\<rparr>"
  have ok: "ok ?r1" "ok ?r2" "ok ?r3"
    by (simp_all add: ok_def)
  have ct: "sublist (str ''application/json'') (str ''application/json; charset=utf-8'')"
    "\<not> sublist (str ''application/json'') (str ''text/plain'')"
    "sublist (str ''application/json'') (str ''application/json'')"
    by code_simp+
  have p1: "JSON_parse (str ''{\"id\":\"abc\"}'') = Inr (JObject [(str ''id'', JString (str ''abc''))])"
    by code_simp
  have p3: "JSON_parse (str ''<html>'') = Inl syntax_error"
    by code_simp
  have a: "fst (request demo_client (mock ?r1) (str ''GET'') (str ''/rooms/r1'') None)
     = Inr (JObject [(str ''id'', JString (str ''abc''))])"
    using success_decoded_by_content_type [of "mock ?r1" demo_client "str ''GET''" "str ''/rooms/r1''" None ?r1]
      ok ct p1 by (simp add: mock_def)
  have b: "fst (request demo_client (mock ?r2) (str ''GET'') (str ''/rooms/r1'') None)
     = Inr (JString (str ''{\"id\":\"abc\"}''))"
    using success_decoded_by_content_type [of "mock ?r2" demo_client "str ''GET''" "str ''/rooms/r1''" None ?r2]
      ok ct by (simp add: mock_def)
  have c: "fst (request demo_client (mock ?r3) (str ''GET'') (str ''/rooms/r1'') None) = Inl syntax_error"
    using success_decoded_by_content_type [of "mock ?r3" demo_client "str ''GET''" "str ''/rooms/r1''" None ?r3]
      ok ct p3 by (simp add: mock_def)
  show ?thesis
    by (intro conjI a b c)
qed



section \<open>Request headers\<close>

text \<open>
  Claim C8.  Every request the client builds carries exactly three headers:
  \<open>Authorization: Bearer <apiKey>\<close> with the API key the client was constructed with,
  \<open>Content-Type: application/json\<close> and \<open>Accept: application/json\<close>, whatever the method and
  whether or not there is a body; so does every request a tool handler issues.
\<close>

theorem every_request_has_three_headers:
  "fst (new_NeatPulseClient config) = Inr \<lparr>this_apiKey = apiKey config, this_orgId = orgId config\<rparr>
   \<and> map fetch_headers (snd (request this net method path body)) =
        [[(str ''Authorization'', str ''Bearer '' @ this_apiKey this),
          (str ''Content-Type'', str ''application/json''),
          (str ''Accept'', str ''application/json'')]]
   \<and> set (map fetch_headers (snd (handler this net call))) \<subseteq>
        {[(str ''Authorization'', str ''Bearer '' @ this_apiKey this),
          (str ''Content-Type'', str ''application/json''),
          (str ''Accept'', str ''application/json'')]}"
proof -
  have h: "fetch_headers (options this m p b) =
        [(str ''Authorization'', str ''Bearer '' @ this_apiKey this),
          (str ''Content-Type'', str ''application/json''),
          (str ''Accept'', str ''application/json'')]" for m p b
    by (simp add: options_def headers_def)
  have 1: "fst (new_NeatPulseClient config) = Inr \<lparr>this_apiKey = apiKey config, this_orgId = orgId config\<rparr>"
    by (simp add: new_NeatPulseClient_def)
  have 2: "map fetch_headers (snd (request this net method path body)) =
        [[(str ''Authorization'', str ''Bearer '' @ this_apiKey this),
          (str ''Content-Type'', str ''application/json''),
          (str ''Accept'', str ''application/json'')]]"
    by (simp add: request_calls h)
  have 3: "set (map fetch_headers (snd (handler this net call))) \<subseteq>
        {[(str ''Authorization'', str ''Bearer '' @ this_apiKey this),
          (str ''Content-Type'', str ''application/json''),
          (str ''Accept'', str ''application/json'')]}"
    using invoke_calls [of this net call] by (auto simp: handler_calls h)
  from 1 2 3 show ?thesis by blast
qed

section \<open>Construction\<close>

text \<open>
  Claim C9, as the code has it.  The claim says that constructing the client without an API
  key or an organisation id fails; the constructor only stores the two fields, so
  constructing it from two empty strings succeeds (the counterexample).  What holds:
  construction stores \<open>apiKey\<close> and \<open>orgId\<close> as given, never fails and makes no network call;
  the check for presence and non-emptiness is the entry point's, which exits with status 1
  and a message, without constructing a client, when either environment variable is unset
  or empty, and constructs the client from the two values otherwise.
\<close>

theorem construction_unchecked_bootstrap_checks:
  "new_NeatPulseClient config = (Inr \<lparr>this_apiKey = apiKey config, this_orgId = orgId config\<rparr>, [])
   \<and> bootstrap env_apiKey env_orgId =
       (if env_apiKey = None \<or> env_apiKey = Some [] \<or> env_orgId = None \<or> env_orgId = Some []
        then (Exit 1 (str ''Error: NEAT_PULSE_API_KEY and NEAT_PULSE_ORG_ID environment variables are required.''), [])
        else (Started \<lparr>this_apiKey = the env_apiKey, this_orgId = the env_orgId\<rparr>, []))"
  by (cases env_apiKey; cases env_orgId) (simp_all add: new_NeatPulseClient_def bootstrap_def)

text \<open>The counterexample to claim C9 as stated: construction from empty strings does not fail.\<close>

theorem constructor_accepts_empty_counterexample:
  "\<not> (\<forall>config. apiKey config = [] \<or> orgId config = []
         \<longrightarrow> (\<exists>e. fst (new_NeatPulseClient config) = Inl e))"
proof
  assume "\<forall>config. apiKey config = [] \<or> orgId config = []
         \<longrightarrow> (\<exists>e. fst (new_NeatPulseClient config) = Inl e)"
  then have "\<exists>e. fst (new_NeatPulseClient \<lparr>apiKey = [], orgId = []\<rparr>) = Inl e"
    by simp
  then show False
    by (simp add: new_NeatPulseClient_def)
qed

section \<open>Query strings\<close>

lemma urlencode_names:
  "urlencode (str ''regionId'') = str ''regionId''"
  "urlencode (str ''locationId'') = str ''locationId''"
  "urlencode (str ''from'') = str ''from''"
  "urlencode (str ''to'') = str ''to''"
  "urlencode (str ''pageToken'') = str ''pageToken''"
  "urlencode (str ''pageSize'') = str ''pageSize''"
  "urlencode (str ''uploadInCallLogs'') = str ''uploadInCallLogs''"
  "urlencode (str ''true'') = str ''true''"
  "urlencode (str ''false'') = str ''false''"
  by code_simp+

lemma filter_params_cases:
  "filter_params None None = []"
  "filter_params (Some r) None = [(str ''regionId'', Number_toString r)]"
  "filter_params None (Some l) = [(str ''locationId'', Number_toString l)]"
  "filter_params (Some r) (Some l) = [(str ''regionId'', Number_toString r), (str ''locationId'', Number_toString l)]"
  by (simp_all add: filter_params_def params_set_def str_def)

lemma audit_params_cases:
  "audit_params f t None None = [(str ''from'', f), (str ''to'', t)]"
  "audit_params f t (Some p) None = [(str ''from'', f), (str ''to'', t), (str ''pageToken'', p)]"
  "audit_params f t None (Some n) = [(str ''from'', f), (str ''to'', t), (str ''pageSize'', Number_toString n)]"
  "audit_params f t (Some p) (Some n) =
     [(str ''from'', f), (str ''to'', t), (str ''pageToken'', p), (str ''pageSize'', Number_toString n)]"
  by (simp_all add: audit_params_def params_set_def str_def)

lemma filter_query:
  "query (params_toString (filter_params regionId locationId)) =
     (case (regionId, locationId) of
        (None, None) \<Rightarrow> []
      | (Some r, None) \<Rightarrow> str ''?regionId='' @ urlencode (Number_toString r)
      | (None, Some l) \<Rightarrow> str ''?locationId='' @ urlencode (Number_toString l)
      | (Some r, Some l) \<Rightarrow>
          str ''?regionId='' @ urlencode (Number_toString r)
            @ str ''&locationId='' @ urlencode (Number_toString l))"
  by (cases regionId; cases locationId)
     (simp_all add: filter_params_cases params_toString_def pair_string_def query_def urlencode_names,
      simp_all add: str_def)

text \<open>
  Claim C3, as the code has it.  The claim says that every operation with optional filter
  or pagination parameters sends no query string when none of them is supplied;
  \<open>getAuditLogs\<close> always sends \<open>from\<close> and \<open>to\<close> in the query string (the counterexample).
  What holds: the query string of \<open>listEndpoints\<close> and \<open>getBulkSensorData\<close> is made of
  exactly the supplied ones of \<open>regionId\<close> and \<open>locationId\<close>, that of \<open>generateBugReport\<close> of
  \<open>uploadInCallLogs\<close> when supplied, each as \<open>key=value\<close> with the value form-urlencoded, and
  there is no query string when none is supplied; the query string of \<open>getAuditLogs\<close> is
  \<open>from\<close> and \<open>to\<close> followed by exactly the supplied ones of \<open>pageToken\<close> and \<open>pageSize\<close>.
  Each parameter appears or not on its own.
\<close>

theorem query_holds_supplied_parameters:
  "map fetch_url (snd (listEndpoints this net regionId locationId)) =
     [url this (str ''/endpoints'' @
        (case (regionId, locationId) of
           (None, None) \<Rightarrow> []
         | (Some r, None) \<Rightarrow> str ''?regionId='' @ urlencode (Number_toString r)
         | (None, Some l) \<Rightarrow> str ''?locationId='' @ urlencode (Number_toString l)
         | (Some r, Some l) \<Rightarrow>
             str ''?regionId='' @ urlencode (Number_toString r)
               @ str ''&locationId='' @ urlencode (Number_toString l)))]
   \<and> map fetch_url (snd (getBulkSensorData this net regionId locationId)) =
     [url this (str ''/endpoints/sensor'' @
        (case (regionId, locationId) of
           (None, None) \<Rightarrow> []
         | (Some r, None) \<Rightarrow> str ''?regionId='' @ urlencode (Number_toString r)
         | (None, Some l) \<Rightarrow> str ''?locationId='' @ urlencode (Number_toString l)
         | (Some r, Some l) \<Rightarrow>
             str ''?regionId='' @ urlencode (Number_toString r)
               @ str ''&locationId='' @ urlencode (Number_toString l)))]
   \<and> map fetch_url (snd (generateBugReport this net ids uploadInCallLogs)) =
     [url this (str ''/endpoints/generate_bug_report'' @
        (case uploadInCallLogs of
           None \<Rightarrow> []
         | Some b \<Rightarrow> str ''?uploadInCallLogs='' @ (if b then str ''true'' else str ''false'')))]
   \<and> map fetch_url (snd (getAuditLogs this net from to pageToken pageSize)) =
     [url this (str ''/audit/logs?from='' @ urlencode from @ str ''&to='' @ urlencode to
        @ (case pageToken of None \<Rightarrow> [] | Some t \<Rightarrow> str ''&pageToken='' @ urlencode t)
        @ (case pageSize of None \<Rightarrow> [] | Some n \<Rightarrow> str ''&pageSize='' @ urlencode (Number_toString n)))]"
proof -
  have 1: "map fetch_url (snd (listEndpoints this net regionId locationId)) =
     [url this (str ''/endpoints'' @
        (case (regionId, locationId) of
           (None, None) \<Rightarrow> []
         | (Some r, None) \<Rightarrow> str ''?regionId='' @ urlencode (Number_toString r)
         | (None, Some l) \<Rightarrow> str ''?locationId='' @ urlencode (Number_toString l)
         | (Some r, Some l) \<Rightarrow>
             str ''?regionId='' @ urlencode (Number_toString r)
               @ str ''&locationId='' @ urlencode (Number_toString l)))]"
    by (simp add: listEndpoints_def request_calls options_def filter_query)
  have 2: "map fetch_url (snd (getBulkSensorData this net regionId locationId)) =
     [url this (str ''/endpoints/sensor'' @
        (case (regionId, locationId) of
           (None, None) \<Rightarrow> []
         | (Some r, None) \<Rightarrow> str ''?regionId='' @ urlencode (Number_toString r)
         | (None, Some l) \<Rightarrow> str ''?locationId='' @ urlencode (Number_toString l)
         | (Some r, Some l) \<Rightarrow>
             str ''?regionId='' @ urlencode (Number_toString r)
               @ str ''&locationId='' @ urlencode (Number_toString l)))]"
    by (simp add: getBulkSensorData_def request_calls options_def filter_query)
  have 3: "map fetch_url (snd (generateBugReport this net ids uploadInCallLogs)) =
     [url this (str ''/endpoints/generate_bug_report'' @
        (case uploadInCallLogs of
           None \<Rightarrow> []
         | Some b \<Rightarrow> str ''?uploadInCallLogs='' @ (if b then str ''true'' else str ''false'')))]"
    by (cases uploadInCallLogs)
       (simp_all add: generateBugReport_def request_calls options_def bug_report_params_def
          params_set_def params_toString_def pair_string_def query_def String_boolean_def urlencode_names,
        simp_all add: str_def)
  have 4: "map fetch_url (snd (getAuditLogs this net from to pageToken pageSize)) =
     [url this (str ''/audit/logs?from='' @ urlencode from @ str ''&to='' @ urlencode to
        @ (case pageToken of None \<Rightarrow> [] | Some t \<Rightarrow> str ''&pageToken='' @ urlencode t)
        @ (case pageSize of None \<Rightarrow> [] | Some n \<Rightarrow> str ''&pageSize='' @ urlencode (Number_toString n)))]"
    by (cases pageToken; cases pageSize)
       (simp_all add: getAuditLogs_def request_calls options_def audit_params_cases
          params_toString_def pair_string_def urlencode_names,
        simp_all add: str_def)
  show ?thesis
    by (intro conjI 1 2 3 4)
qed

theorem query_holds_supplied_parameters_witness:
  "map fetch_url (snd (invoke demo_client (offline (TypeError [])) (list_devices (Some (Finite False [7] 1)) None)))
     = [str ''https://api.pulse.neat.no/v1/orgs/org1/endpoints?regionId=7'']
   \<and> map fetch_url (snd (invoke demo_client (offline (TypeError [])) (list_devices None None)))
     = [str ''https://api.pulse.neat.no/v1/orgs/org1/endpoints'']"
proof -
  have e: "urlencode (Number_toString (Finite False [7] 1)) = str ''7''"
    by code_simp
  have 1: "map fetch_url (snd (invoke demo_client (offline (TypeError [])) (list_devices (Some (Finite False [7] 1)) None)))
     = [str ''https://api.pulse.neat.no/v1/orgs/org1/endpoints?regionId=7'']"
    using query_holds_supplied_parameters [of demo_client "offline (TypeError [])" "Some (Finite False [7] 1)" None] e
    by (simp add: url_def BASE_URL_def demo_client_def str_def)
  have 2: "map fetch_url (snd (invoke demo_client (offline (TypeError [])) (list_devices None None)))
     = [str ''https://api.pulse.neat.no/v1/orgs/org1/endpoints'']"
    using query_holds_supplied_parameters [of demo_client "offline (TypeError [])" None None]
    by (simp add: url_def BASE_URL_def demo_client_def str_def)
  show ?thesis
    by (intro conjI 1 2)
qed

text \<open>
  The counterexample to claim C3 as stated: with neither \<open>pageToken\<close> nor \<open>pageSize\<close>, the
  request of \<open>getAuditLogs\<close> has a query string.
\<close>

theorem audit_logs_always_has_query_counterexample:
  "map fetch_url (snd (getAuditLogs demo_client (offline (TypeError []))
        (str ''2024-01-01'') (str ''2024-01-02'') None None))
     = [str ''https://api.pulse.neat.no/v1/orgs/org1/audit/logs?from=2024-01-01&to=2024-01-02'']
   \<and> \<not> (\<forall>this net from to. list_all (\<lambda>u. 0x3F \<notin> set u)
           (map fetch_url (snd (getAuditLogs this net from to None None))))"
proof -
  have e: "urlencode (str ''2024-01-01'') = str ''2024-01-01''" "urlencode (str ''2024-01-02'') = str ''2024-01-02''"
    by code_simp+
  have 1: "map fetch_url (snd (getAuditLogs demo_client (offline (TypeError []))
        (str ''2024-01-01'') (str ''2024-01-02'') None None))
     = [str ''https://api.pulse.neat.no/v1/orgs/org1/audit/logs?from=2024-01-01&to=2024-01-02'']"
    by (simp add: getAuditLogs_def request_calls options_def audit_params_cases
          params_toString_def pair_string_def urlencode_names e url_def BASE_URL_def demo_client_def)
       (simp add: str_def)
  have "\<not> list_all (\<lambda>u. 0x3F \<notin> set u) (map fetch_url (snd (getAuditLogs demo_client (offline (TypeError []))
        (str ''2024-01-01'') (str ''2024-01-02'') None None)))"
    unfolding 1 by (simp add: str_def)
  then have 2: "\<not> (\<forall>this net from to. list_all (\<lambda>u. 0x3F \<notin> set u)
           (map fetch_url (snd (getAuditLogs this net from to None None))))"
    by blast
  show ?thesis
    by (intro conjI 1 2)
qed

section \<open>Round trips through JSON text\<close>









end
